theory Spec2Isabelle
  imports Complex_Main "HOL-Library.Multiset"
begin

section \<open>Data model\<close>

text \<open>
  The itinerary-ordering core of gptravel: \<^verbatim>\<open>core/services/geocoder.py\<close> and
  \<^verbatim>\<open>core/services/engine/tsp_solver.py\<close>.

  Python raises are values of type \<open>error\<close>; a fallible call returns \<open>error + 'a\<close>
  with \<open>Inl\<close> the exception. Distances are \<open>real\<close>: the only float constant of the
  code is \<open>0.0\<close> and no claim depends on rounding. A leading underscore of a Python
  attribute is written with the class name as a prefix (\<open>GeoCoder_query\<close> for
  \<^verbatim>\<open>GeoCoder._query\<close>). The \<^verbatim>\<open>logger.debug\<close> calls are left out.
\<close>

datatype error = ValueError | IndexError | SolverError

text \<open>\<^verbatim>\<open>geopy.Location\<close>: only the two attributes that the distance code reads.\<close>

record Location =
  latitude :: real
  longitude :: real

text \<open>The dictionary \<^verbatim>\<open>{"lat": ..., "lon": ...}\<close> of \<^verbatim>\<open>location_coordinates\<close>.\<close>

record coords =
  lat :: "real option"
  lon :: "real option"

datatype solver_kind = DynamicProgramming | SimulatedAnnealing

type_synonym ndarray = "real list list"

text \<open>
  Effects are observed through a trace: every access to \<^verbatim>\<open>LOCATION_CACHE\<close>, every
  call of the external geocoding provider and every call of a TSP solver appends an
  event.
\<close>

datatype event =
    CacheRead string
  | CacheWrite string
  | ProviderCall string
  | SolverCall solver_kind ndarray

text \<open>
  The mutable world: the module-level dictionary \<^verbatim>\<open>LOCATION_CACHE\<close> (a cached value
  may be \<^verbatim>\<open>None\<close>, hence \<open>Location option\<close> as the value type), the numpy arrays
  that exist (an array reference is its index in \<open>heap\<close>), and the trace.
\<close>

record world =
  LOCATION_CACHE :: "string \<rightharpoonup> Location option"
  heap :: "ndarray list"
  trace :: "event list"

text \<open>
  \<^verbatim>\<open>GeoCoder\<close>: its only attribute is the provider call \<^verbatim>\<open>self._geocoder\<close>
  (\<^verbatim>\<open>Photon().geocode\<close>), which returns a location or \<^verbatim>\<open>None\<close>.
\<close>

record GeoCoder =
  GeoCoder_geocoder :: "string \<Rightarrow> Location option"

record TSPSolver =
  TSPSolver_geocoder :: GeoCoder
  TSPSolver_distance_matrix :: nat

section \<open>geocoder.py\<close>

text \<open>\<^verbatim>\<open>str.lower\<close> on the ASCII letters; place names are taken as ASCII strings.\<close>

definition lower_char :: "char \<Rightarrow> char" where
  "lower_char c =
     (let n = (of_char c :: nat) in if 65 \<le> n \<and> n \<le> 90 then char_of (n + 32) else c)"

definition lower :: "string \<Rightarrow> string" where
  "lower s = map lower_char s"

definition log_event :: "event \<Rightarrow> world \<Rightarrow> world" where
  "log_event e w = w\<lparr>trace := trace w @ [e]\<rparr>"

text \<open>
  \<^verbatim>\<open>
  def _query(self, location_name):
      loc_name = location_name.lower()
      if loc_name in LOCATION_CACHE:
          return LOCATION_CACHE[loc_name]
      qry_obj = self._geocoder(location_name)
      LOCATION_CACHE[loc_name] = qry_obj
      return qry_obj
  \<close>
\<close>

definition GeoCoder_query :: "GeoCoder \<Rightarrow> string \<Rightarrow> world \<Rightarrow> Location option \<times> world" where
  "GeoCoder_query self location_name w =
     (let loc_name = lower location_name;
          w1 = log_event (CacheRead loc_name) w
      in case LOCATION_CACHE w1 loc_name of
           Some v \<Rightarrow> (v, log_event (CacheRead loc_name) w1)
         | None \<Rightarrow>
             (let qry_obj = GeoCoder_geocoder self location_name;
                  w2 = log_event (ProviderCall location_name) w1;
                  w3 = w2\<lparr>LOCATION_CACHE := (LOCATION_CACHE w2)(loc_name \<mapsto> qry_obj)\<rparr>
              in (qry_obj, log_event (CacheWrite loc_name) w3)))"

text \<open>
  \<^verbatim>\<open>
  def location_coordinates(self, location_name):
      fetched_location = self._query(location_name)
      if fetched_location:
          return {"lat": fetched_location.latitude, "lon": fetched_location.longitude}
      return {"lat": None, "lon": None}
  \<close>
  A \<^verbatim>\<open>Location\<close> object is always truthy, so the test is \<^verbatim>\<open>is not None\<close>.
\<close>

definition location_coordinates :: "GeoCoder \<Rightarrow> string \<Rightarrow> world \<Rightarrow> coords \<times> world" where
  "location_coordinates self location_name w =
     (case GeoCoder_query self location_name w of
        (Some fetched_location, w') \<Rightarrow>
          (\<lparr>lat = Some (latitude fetched_location), lon = Some (longitude fetched_location)\<rparr>, w')
      | (None, w') \<Rightarrow> (\<lparr>lat = None, lon = None\<rparr>, w'))"

text \<open>
  \<^verbatim>\<open>
  def location_distance(self, location_name_1, location_name_2):
      if location_name_1.lower() == location_name_2.lower():
          return 0.0
      location1_coords = self.location_coordinates(location_name_1)
      location2_coords = self.location_coordinates(location_name_2)
      return GRC((location1_coords["lat"], location1_coords["lon"]),
                 (location2_coords["lat"], location2_coords["lon"])).km
  \<close>
  \<open>GRC\<close> is \<^verbatim>\<open>geopy.distance.geodesic\<close> followed by \<^verbatim>\<open>.km\<close>, a parameter: it takes
  the two (lat, lon) pairs as they are passed, \<^verbatim>\<open>None\<close> components included, and
  returns kilometres or raises.
\<close>

type_synonym geodesic = "real option \<times> real option \<Rightarrow> real option \<times> real option \<Rightarrow> error + real"

definition location_distance ::
    "geodesic \<Rightarrow> GeoCoder \<Rightarrow> string \<Rightarrow> string \<Rightarrow> world \<Rightarrow> (error + real) \<times> world" where
  "location_distance GRC self location_name_1 location_name_2 w =
     (if lower location_name_1 = lower location_name_2 then (Inr 0, w)
      else
        (let (location1_coords, w1) = location_coordinates self location_name_1 w;
             (location2_coords, w2) = location_coordinates self location_name_2 w1
         in (GRC (lat location1_coords, lon location1_coords)
                 (lat location2_coords, lon location2_coords), w2)))"

section \<open>tsp_solver.py\<close>

subsection \<open>numpy arrays and Python lists\<close>

text \<open>
  \<^verbatim>\<open>np.array\<close>, \<^verbatim>\<open>np.empty\<close> and \<^verbatim>\<open>np.copy\<close> create a new array: \<open>alloc\<close> appends it
  to the heap and returns its reference. \<^verbatim>\<open>np.empty([r, c])\<close> does not initialise the
  entries: \<open>u\<close> is whatever the memory holds.
\<close>

definition alloc :: "ndarray \<Rightarrow> world \<Rightarrow> nat \<times> world" where
  "alloc a w = (length (heap w), w\<lparr>heap := heap w @ [a]\<rparr>)"

definition np_array :: "real list list \<Rightarrow> world \<Rightarrow> nat \<times> world" where
  "np_array rows w = alloc rows w"

definition np_empty :: "nat \<Rightarrow> nat \<Rightarrow> (nat \<Rightarrow> nat \<Rightarrow> real) \<Rightarrow> world \<Rightarrow> nat \<times> world" where
  "np_empty r c u w = alloc (map (\<lambda>i. map (\<lambda>j. u i j) [0..<c]) [0..<r]) w"

definition np_copy :: "nat \<Rightarrow> world \<Rightarrow> nat \<times> world" where
  "np_copy a w = alloc (heap w ! a) w"

text \<open>\<^verbatim>\<open>arr[:, k] = v\<close> on a two-dimensional array, in place.\<close>

definition set_column :: "nat \<Rightarrow> nat \<Rightarrow> real \<Rightarrow> world \<Rightarrow> world" where
  "set_column a k v w = w\<lparr>heap := (heap w)[a := map (\<lambda>row. row[k := v]) (heap w ! a)]\<rparr>"

text \<open>
  \<^verbatim>\<open>xs[i]\<close> on a Python list: a negative index counts from the end, an index out of
  range raises \<^verbatim>\<open>IndexError\<close>.
\<close>

definition getitem :: "'a list \<Rightarrow> int \<Rightarrow> error + 'a" where
  "getitem xs i =
     (if 0 \<le> i \<and> i < int (length xs) then Inr (xs ! nat i)
      else if i < 0 \<and> - int (length xs) \<le> i then Inr (xs ! nat (int (length xs) + i))
      else Inl IndexError)"

text \<open>
  A list comprehension \<^verbatim>\<open>[f(x) for x in xs]\<close> whose element expression has effects and
  may raise: the elements are evaluated from left to right, and the first exception
  ends the evaluation with the world as it is then.
\<close>

fun comprehension ::
    "('a \<Rightarrow> world \<Rightarrow> (error + 'b) \<times> world) \<Rightarrow> 'a list \<Rightarrow> world \<Rightarrow> (error + 'b list) \<times> world" where
  "comprehension f [] w = (Inr [], w)"
| "comprehension f (x # xs) w =
     (case f x w of
        (Inl e, w1) \<Rightarrow> (Inl e, w1)
      | (Inr y, w1) \<Rightarrow>
          (case comprehension f xs w1 of
             (Inl e, w2) \<Rightarrow> (Inl e, w2)
           | (Inr ys, w2) \<Rightarrow> (Inr (y # ys), w2)))"

subsection \<open>TSPSolver\<close>

text \<open>
  \<^verbatim>\<open>python_tsp\<close>: the two solvers are parameters. A solver reads the matrix it is
  given and returns a list of indices and a distance, or raises. (The outcome of the
  randomised heuristic is the outcome of the function chosen for it.)
\<close>

type_synonym tsp_function = "ndarray \<Rightarrow> error + (int list \<times> real)"

record python_tsp =
  solve_tsp_dynamic_programming :: tsp_function
  solve_tsp_simulated_annealing :: tsp_function

text \<open>
  \<^verbatim>\<open>
  def __init__(self, geocoder):
      self._geocoder = geocoder
      self._distance_matrix = np.empty([2, 2])
  \<close>
\<close>

definition TSPSolver_init ::
    "GeoCoder \<Rightarrow> (nat \<Rightarrow> nat \<Rightarrow> real) \<Rightarrow> world \<Rightarrow> TSPSolver \<times> world" where
  "TSPSolver_init geocoder u w =
     (let (a, w') = np_empty 2 2 u w
      in (\<lparr>TSPSolver_geocoder = geocoder, TSPSolver_distance_matrix = a\<rparr>, w'))"

text \<open>The property \<^verbatim>\<open>distance_matrix\<close>: the array that \<^verbatim>\<open>self._distance_matrix\<close> refers to.\<close>

definition distance_matrix :: "TSPSolver \<Rightarrow> world \<Rightarrow> ndarray" where
  "distance_matrix self w = heap w ! TSPSolver_distance_matrix self"

text \<open>
  Lines 34 to 42 of \<^verbatim>\<open>solve\<close>, the nested comprehension
  \<^verbatim>\<open>
  [[0.0 if i == j else self._geocoder.location_distance(cities[i], cities[j])
    for j in range(len(cities))]
   for i in range(len(cities))]
  \<close>
\<close>

definition build_distance_matrix ::
    "geodesic \<Rightarrow> GeoCoder \<Rightarrow> string list \<Rightarrow> world \<Rightarrow> (error + real list list) \<times> world" where
  "build_distance_matrix GRC geocoder cities w =
     comprehension
       (\<lambda>i. comprehension
          (\<lambda>j w'. if i = j then (Inr 0, w')
                  else location_distance GRC geocoder (cities ! i) (cities ! j) w')
          [0..<length cities])
       [0..<length cities] w"

text \<open>Line 48, \<^verbatim>\<open>[cities[index] for index in solution_indexes]\<close>.\<close>

fun route :: "string list \<Rightarrow> int list \<Rightarrow> error + string list" where
  "route cities [] = Inr []"
| "route cities (index # solution_indexes) =
     (case getitem cities index of
        Inl e \<Rightarrow> Inl e
      | Inr c \<Rightarrow>
          (case route cities solution_indexes of
             Inl e \<Rightarrow> Inl e
           | Inr cs \<Rightarrow> Inr (c # cs)))"

text \<open>
  \<^verbatim>\<open>
  def solve(self, cities, open_problem=False):
      if len(cities) > 1:
          if len(cities) < 10:
              solver = solve_tsp_dynamic_programming
          else:
              solver = solve_tsp_simulated_annealing
          self._distance_matrix = np.array([[...]])
          dist_mat = np.copy(self._distance_matrix)
          if open_problem:
              dist_mat[:, 0] = 0.0
          solution_indexes, solution_distance = solver(distance_matrix=dist_mat)
          return [cities[index] for index in solution_indexes], solution_distance
      return cities, 0.0
  \<close>
  The result is the returned pair or the exception, the solver object after the call,
  and the world after the call. An exception raised while the matrix is built leaves
  \<^verbatim>\<open>self._distance_matrix\<close> as it was.
\<close>

definition solve ::
    "python_tsp \<Rightarrow> geodesic \<Rightarrow> TSPSolver \<Rightarrow> string list \<Rightarrow> bool \<Rightarrow> world
      \<Rightarrow> (error + string list \<times> real) \<times> TSPSolver \<times> world" where
  "solve tsp GRC self cities open_problem w =
     (if length cities > 1 then
        (let (kind, solver) =
               (if length cities < 10
                then (DynamicProgramming, solve_tsp_dynamic_programming tsp)
                else (SimulatedAnnealing, solve_tsp_simulated_annealing tsp))
         in case build_distance_matrix GRC (TSPSolver_geocoder self) cities w of
              (Inl e, w1) \<Rightarrow> (Inl e, self, w1)
            | (Inr rows, w1) \<Rightarrow>
                (let (a, w2) = np_array rows w1;
                     self' = self\<lparr>TSPSolver_distance_matrix := a\<rparr>;
                     (dist_mat, w3) = np_copy (TSPSolver_distance_matrix self') w2;
                     w4 = (if open_problem then set_column dist_mat 0 0 w3 else w3);
                     w5 = log_event (SolverCall kind (heap w4 ! dist_mat)) w4
                 in case solver (heap w4 ! dist_mat) of
                      Inl e \<Rightarrow> (Inl e, self', w5)
                    | Inr (solution_indexes, solution_distance) \<Rightarrow>
                        (case route cities solution_indexes of
                           Inl e \<Rightarrow> (Inl e, self', w5)
                         | Inr r \<Rightarrow> (Inr (r, solution_distance), self', w5))))
      else (Inr (cities, 0), self, w))"

section \<open>Vocabulary of the statements\<close>

text \<open>
  The cache only grows: \<open>cache_le w w'\<close> says that every entry of the cache of \<open>w\<close> is
  an entry of the cache of \<open>w'\<close>.
\<close>

definition cache_le :: "world \<Rightarrow> world \<Rightarrow> bool" where
  "cache_le w w' = (LOCATION_CACHE w \<subseteq>\<^sub>m LOCATION_CACHE w')"

text \<open>What \<open>location_coordinates\<close> returns for a name whose key is in the cache.\<close>

definition cached_coords :: "world \<Rightarrow> string \<Rightarrow> coords" where
  "cached_coords w location_name =
     (case LOCATION_CACHE w (lower location_name) of
        Some (Some l) \<Rightarrow> \<lparr>lat = Some (latitude l), lon = Some (longitude l)\<rparr>
      | _ \<Rightarrow> \<lparr>lat = None, lon = None\<rparr>)"

text \<open>What \<open>location_distance\<close> returns, when it returns, for two cached names.\<close>

definition cached_distance :: "geodesic \<Rightarrow> world \<Rightarrow> string \<Rightarrow> string \<Rightarrow> real" where
  "cached_distance GRC w a b =
     (if lower a = lower b then 0
      else case GRC (lat (cached_coords w a), lon (cached_coords w a))
                    (lat (cached_coords w b), lon (cached_coords w b)) of
             Inr d \<Rightarrow> d
           | Inl e \<Rightarrow> 0)"

text \<open>
  A matrix with column 0 set to zero, the matrix that the solver is given, and what
  \<open>solve\<close> returns for what the solver returns.
\<close>

definition opened :: "ndarray \<Rightarrow> ndarray" where
  "opened m = map (\<lambda>row. row[0 := 0]) m"

definition working_matrix :: "bool \<Rightarrow> ndarray \<Rightarrow> ndarray" where
  "working_matrix open_problem m = (if open_problem then opened m else m)"

definition solver_result :: "string list \<Rightarrow> error + int list \<times> real \<Rightarrow> error + string list \<times> real" where
  "solver_result cities out =
     (case out of
        Inl e \<Rightarrow> Inl e
      | Inr (solution_indexes, solution_distance) \<Rightarrow>
          (case route cities solution_indexes of
             Inl e \<Rightarrow> Inl e
           | Inr r \<Rightarrow> Inr (r, solution_distance)))"

text \<open>The provider calls and the solver calls of a trace, in order.\<close>

fun provider_calls :: "event list \<Rightarrow> string list" where
  "provider_calls [] = []"
| "provider_calls (ProviderCall n # es) = n # provider_calls es"
| "provider_calls (e # es) = provider_calls es"

fun solver_calls :: "event list \<Rightarrow> (solver_kind \<times> ndarray) list" where
  "solver_calls [] = []"
| "solver_calls (SolverCall k m # es) = (k, m) # solver_calls es"
| "solver_calls (e # es) = solver_calls es"

text \<open>What the geocoder leaves alone: the arrays and the solver calls of the trace.\<close>

definition frame :: "world \<Rightarrow> world \<Rightarrow> bool" where
  "frame w w' = (heap w' = heap w \<and> solver_calls (trace w') = solver_calls (trace w))"

text \<open>Any sequence of queries, each by some \<^verbatim>\<open>GeoCoder\<close> object, on the shared cache.\<close>

fun run_queries :: "(GeoCoder \<times> string) list \<Rightarrow> world \<Rightarrow> world" where
  "run_queries [] w = w"
| "run_queries ((g, n) # qs) w = run_queries qs (snd (GeoCoder_query g n w))"

text \<open>
  No case-folded name has been looked up twice, and every name looked up is in the
  cache.
\<close>

definition looked_up_once :: "world \<Rightarrow> bool" where
  "looked_up_once w =
     (distinct (map lower (provider_calls (trace w))) \<and>
      lower ` set (provider_calls (trace w)) \<subseteq> dom (LOCATION_CACHE w))"

text \<open>
  The pair \<^verbatim>\<open>(lat, lon)\<close> that \<open>location_distance\<close> hands to the geodesic computation
  for a query result.
\<close>

definition coordinate_pair :: "Location option \<Rightarrow> real option \<times> real option" where
  "coordinate_pair fetched_location =
     (case fetched_location of
        Some l \<Rightarrow> (Some (latitude l), Some (longitude l))
      | None \<Rightarrow> (None, None))"

text \<open>A name is unresolved in a world when a query of it there returns \<^verbatim>\<open>None\<close>.\<close>

definition unresolved :: "GeoCoder \<Rightarrow> string \<Rightarrow> world \<Rightarrow> bool" where
  "unresolved self location_name w = (fst (GeoCoder_query self location_name w) = None)"

text \<open>
  Modelled from the spec: the total distance of a route, which \<^verbatim>\<open>python_tsp\<close> computes
  and this repository does not: the sum of the consecutive edge weights, plus the
  closing edge back to the start.
\<close>

fun path_distance :: "ndarray \<Rightarrow> nat list \<Rightarrow> real" where
  "path_distance m (i # j # js) = m ! i ! j + path_distance m (j # js)"
| "path_distance m js = 0"

definition tour_distance :: "ndarray \<Rightarrow> nat list \<Rightarrow> real" where
  "tour_distance m js = (if js = [] then 0 else path_distance m js + m ! last js ! hd js)"

section \<open>Example inputs\<close>

text \<open>
  A process that has just started, a provider that knows two cities, a symmetric
  distance that raises on a missing coordinate, and two solver stubs that report the
  tour distance in the matrix they are given: one starts at the first place and
  visits the others in reverse order, the other visits all places in reverse order.
\<close>

definition start_world :: world where
  "start_world = \<lparr>LOCATION_CACHE = Map.empty, heap = [], trace = []\<rparr>"

definition example_geocoder :: GeoCoder where
  "example_geocoder =
     \<lparr>GeoCoder_geocoder = (\<lambda>n.
        if lower n = ''rome'' then Some \<lparr>latitude = 41, longitude = 12\<rparr>
        else if lower n = ''milan'' then Some \<lparr>latitude = 45, longitude = 9\<rparr>
        else None)\<rparr>"

definition example_self :: TSPSolver where
  "example_self = fst (TSPSolver_init example_geocoder (\<lambda>i j. 1) start_world)"

definition example_world :: world where
  "example_world = snd (TSPSolver_init example_geocoder (\<lambda>i j. 1) start_world)"

definition example_GRC :: geodesic where
  "example_GRC p q =
     (case (p, q) of
        ((Some x, Some y), (Some x', Some y')) \<Rightarrow> Inr (\<bar>x - x'\<bar> + \<bar>y - y'\<bar>)
      | _ \<Rightarrow> Inl ValueError)"

text \<open>
  A second distance, which reads a missing coordinate as 0 and never raises, as a
  point constructor that takes \<^verbatim>\<open>None or 0.0\<close> for each component does.
\<close>

definition zero_if_None :: "real option \<Rightarrow> real" where
  "zero_if_None x = (case x of Some v \<Rightarrow> v | None \<Rightarrow> 0)"

definition example_GRC_lenient :: geodesic where
  "example_GRC_lenient p q =
     Inr (\<bar>zero_if_None (fst p) - zero_if_None (fst q)\<bar> +
          \<bar>zero_if_None (snd p) - zero_if_None (snd q)\<bar>)"

definition example_tour :: "nat \<Rightarrow> nat list" where
  "example_tour n = (if n = 0 then [] else 0 # rev [1..<n])"

definition example_solver :: tsp_function where
  "example_solver m =
     Inr (map int (example_tour (length m)), tour_distance m (example_tour (length m)))"

definition example_heuristic :: tsp_function where
  "example_heuristic m = Inr (map int (rev [0..<length m]), tour_distance m (rev [0..<length m]))"

definition example_tsp :: python_tsp where
  "example_tsp =
     \<lparr>solve_tsp_dynamic_programming = example_solver,
      solve_tsp_simulated_annealing = example_heuristic\<rparr>"

section \<open>The cache grows and cached values are stable\<close>

lemma cache_le_refl: "cache_le w w"
  by (simp add: cache_le_def)

lemma cache_le_trans: "cache_le w1 w2 \<Longrightarrow> cache_le w2 w3 \<Longrightarrow> cache_le w1 w3"
  unfolding cache_le_def by (rule map_le_trans)

lemma cache_le_lookup: "cache_le w w' \<Longrightarrow> LOCATION_CACHE w k = Some v \<Longrightarrow> LOCATION_CACHE w' k = Some v"
  unfolding cache_le_def map_le_def by (metis domI)

lemma query_cache:
  assumes "GeoCoder_query self n w = (v, w')"
  shows "cache_le w w'" and "LOCATION_CACHE w' (lower n) = Some v"
  using assms
  by (auto simp: GeoCoder_query_def log_event_def Let_def cache_le_def map_le_def
           split: option.splits)

lemma coords_cache:
  assumes "location_coordinates self n w = (c, w')"
  shows "cache_le w w'" and "cache_le w' wF \<Longrightarrow> c = cached_coords wF n"
proof -
  obtain v where q: "GeoCoder_query self n w = (v, w')"
    using assms by (auto simp: location_coordinates_def split: prod.splits option.splits)
  show "cache_le w w'" using query_cache(1)[OF q] .
  assume "cache_le w' wF"
  then have "LOCATION_CACHE wF (lower n) = Some v"
    using query_cache(2)[OF q] by (rule cache_le_lookup)
  then show "c = cached_coords wF n"
    using assms q by (auto simp: location_coordinates_def cached_coords_def split: option.splits)
qed

lemma distance_cache:
  assumes "location_distance GRC self a b w = (r, w')"
  shows "cache_le w w'" and "r = Inr d \<Longrightarrow> cache_le w' wF \<Longrightarrow> d = cached_distance GRC wF a b"
proof -
  show "cache_le w w'"
    using assms
    by (auto simp: location_distance_def Let_def cache_le_refl split: if_splits prod.splits
             intro: cache_le_trans coords_cache(1))
  assume r: "r = Inr d" and le: "cache_le w' wF"
  show "d = cached_distance GRC wF a b"
  proof (cases "lower a = lower b")
    case True
    then show ?thesis using assms r by (simp add: location_distance_def cached_distance_def)
  next
    case False
    obtain c1 w1 where c1: "location_coordinates self a w = (c1, w1)" by fastforce
    obtain c2 w2 where c2: "location_coordinates self b w1 = (c2, w2)" by fastforce
    have w2: "w2 = w'" and res: "r = GRC (lat c1, lon c1) (lat c2, lon c2)"
      using assms False c1 c2 by (simp_all add: location_distance_def)
    have "cache_le w1 wF"
      using coords_cache(1)[OF c2] le w2 cache_le_trans by blast
    then have e1: "c1 = cached_coords wF a" by (rule coords_cache(2)[OF c1])
    have e2: "c2 = cached_coords wF b" using coords_cache(2)[OF c2] le w2 by simp
    have "GRC (lat (cached_coords wF a), lon (cached_coords wF a))
              (lat (cached_coords wF b), lon (cached_coords wF b)) = Inr d"
      using res r e1 e2 by simp
    then show ?thesis using False by (simp add: cached_distance_def)
  qed
qed

lemma comprehension_stable:
  assumes mono: "\<And>x w r w'. x \<in> set xs \<Longrightarrow> f x w = (r, w') \<Longrightarrow> cache_le w w'"
    and val: "\<And>x w y w'. x \<in> set xs \<Longrightarrow> f x w = (Inr y, w') \<Longrightarrow> cache_le w' wF \<Longrightarrow> y = h x"
    and run: "comprehension f xs w = (r, w')"
  shows "cache_le w w' \<and> (\<forall>ys. r = Inr ys \<longrightarrow> cache_le w' wF \<longrightarrow> ys = map h xs)"
  using assms
proof (induction xs arbitrary: w r w')
  case Nil
  then show ?case by (auto simp: cache_le_refl)
next
  case (Cons x xs)
  obtain r1 w1 where f: "f x w = (r1, w1)" by fastforce
  have le1: "cache_le w w1" using Cons.prems(1)[OF _ f] by simp
  show ?case
  proof (cases r1)
    case (Inl e)
    then show ?thesis using Cons.prems(3) f le1 by auto
  next
    case (Inr y)
    obtain r2 w2 where c: "comprehension f xs w1 = (r2, w2)" by fastforce
    have ih: "cache_le w1 w2 \<and> (\<forall>ys. r2 = Inr ys \<longrightarrow> cache_le w2 wF \<longrightarrow> ys = map h xs)"
      by (rule Cons.IH[OF _ _ c]) (use Cons.prems in auto)
    have w2: "w' = w2" using Cons.prems(3) f Inr c by (auto split: sum.splits)
    have le: "cache_le w w'" using le1 ih w2 cache_le_trans by blast
    have "ys = map h (x # xs)" if A: "r = Inr ys" and B: "cache_le w' wF" for ys
    proof -
      obtain ys' where r2: "r2 = Inr ys'" and ys: "ys = y # ys'"
        using Cons.prems(3) f Inr c A by (auto split: sum.splits)
      have "cache_le w1 wF" using ih B w2 cache_le_trans by blast
      then have "y = h x" using Cons.prems(2)[of x w y w1] f Inr by simp
      moreover have "ys' = map h xs" using ih r2 B w2 by simp
      ultimately show ?thesis using ys by simp
    qed
    then show ?thesis using le by blast
  qed
qed

lemma build_distance_matrix_cache:
  assumes "build_distance_matrix GRC geocoder cities w = (r, w')"
  shows "cache_le w w'"
    and "r = Inr m \<Longrightarrow>
         m = map (\<lambda>i. map (\<lambda>j. if i = j then 0 else cached_distance GRC w' (cities ! i) (cities ! j))
                   [0..<length cities]) [0..<length cities]"
proof -
  let ?cell = "\<lambda>i j w'. if i = j then (Inr 0, w')
                  else location_distance GRC geocoder (cities ! i) (cities ! j) w'"
  let ?h = "\<lambda>i j. if i = j then 0 else cached_distance GRC w' (cities ! i) (cities ! j)"
  have cell_mono: "cache_le u u'" if "?cell i j u = (q, u')" for i j u q u'
    using that by (auto simp: cache_le_refl split: if_splits dest: distance_cache(1))
  have cell_val: "y = ?h i j" if "?cell i j u = (Inr y, u')" "cache_le u' w'" for i j u y u'
    using that by (auto split: if_splits dest: distance_cache(2))
  have row: "cache_le u u' \<and> (\<forall>ys. q = Inr ys \<longrightarrow> cache_le u' w' \<longrightarrow> ys = map (?h i) [0..<length cities])"
    if "comprehension (?cell i) [0..<length cities] u = (q, u')" for i u q u'
    by (rule comprehension_stable[where f = "?cell i" and h = "?h i" and wF = w', OF _ _ that])
       (use cell_mono cell_val in blast)+
  have all: "cache_le w w' \<and> (\<forall>ys. r = Inr ys \<longrightarrow> cache_le w' w' \<longrightarrow>
        ys = map (\<lambda>i. map (?h i) [0..<length cities]) [0..<length cities])"
    by (rule comprehension_stable[where f = "\<lambda>i. comprehension (?cell i) [0..<length cities]"
          and wF = w', OF _ _ assms[unfolded build_distance_matrix_def]])
       (use row in blast)+
  show "cache_le w w'" using all by simp
  show "m = map (\<lambda>i. map (?h i) [0..<length cities]) [0..<length cities]" if "r = Inr m"
    using all that cache_le_refl by blast
qed

section \<open>Cache hits and misses\<close>

lemma provider_calls_append: "provider_calls (xs @ ys) = provider_calls xs @ provider_calls ys"
  by (induction xs rule: provider_calls.induct) simp_all

lemma query_hit:
  "LOCATION_CACHE w (lower n) = Some v \<Longrightarrow>
   GeoCoder_query self n w = (v, w\<lparr>trace := trace w @ [CacheRead (lower n), CacheRead (lower n)]\<rparr>)"
  by (simp add: GeoCoder_query_def log_event_def Let_def)

lemma query_miss:
  "LOCATION_CACHE w (lower n) = None \<Longrightarrow>
   GeoCoder_query self n w =
     (GeoCoder_geocoder self n,
      w\<lparr>LOCATION_CACHE := (LOCATION_CACHE w)(lower n \<mapsto> GeoCoder_geocoder self n),
        trace := trace w @ [CacheRead (lower n), ProviderCall n, CacheWrite (lower n)]\<rparr>)"
  by (simp add: GeoCoder_query_def log_event_def Let_def)

lemma query_looked_up_once:
  assumes "looked_up_once w"
  shows "looked_up_once (snd (GeoCoder_query self n w))"
proof (cases "LOCATION_CACHE w (lower n)")
  case None
  then have "lower n \<notin> lower ` set (provider_calls (trace w))"
    using assms by (auto simp: looked_up_once_def)
  then show ?thesis
    using assms by (auto simp: query_miss[OF None] looked_up_once_def provider_calls_append)
next
  case (Some v)
  show ?thesis
    using assms by (simp add: query_hit[OF Some] looked_up_once_def provider_calls_append)
qed

lemma run_queries_looked_up_once:
  "looked_up_once w \<Longrightarrow> looked_up_once (run_queries qs w)"
  by (induction qs w rule: run_queries.induct) (simp_all add: query_looked_up_once)

lemma run_queries_cache_le: "cache_le w (run_queries qs w)"
proof (induction qs w rule: run_queries.induct)
  case (1 w)
  then show ?case by (simp add: cache_le_refl)
next
  case (2 g n qs w)
  have "cache_le w (snd (GeoCoder_query g n w))"
    by (rule query_cache(1)[of g n w "fst (GeoCoder_query g n w)"]) simp
  then show ?case using 2 cache_le_trans by simp
qed

lemma query_result:
  "fst (GeoCoder_query self n w)
     = (case LOCATION_CACHE w (lower n) of Some v \<Rightarrow> v | None \<Rightarrow> GeoCoder_geocoder self n)"
  by (simp add: GeoCoder_query_def log_event_def Let_def split: option.splits)

lemma query_other_key:
  "k \<noteq> lower n \<Longrightarrow> LOCATION_CACHE (snd (GeoCoder_query self n w)) k = LOCATION_CACHE w k"
  by (simp add: GeoCoder_query_def log_event_def Let_def split: option.splits)

lemma coords_world: "snd (location_coordinates self n w) = snd (GeoCoder_query self n w)"
  by (simp add: location_coordinates_def split: prod.splits option.splits)

lemma unresolved_coords:
  "unresolved self n w \<Longrightarrow> fst (location_coordinates self n w) = \<lparr>lat = None, lon = None\<rparr>"
  by (auto simp: unresolved_def location_coordinates_def split: prod.splits option.splits)

lemma distance_result:
  assumes "lower a \<noteq> lower b"
  shows "fst (location_distance GRC self a b w)
     = GRC (lat (fst (location_coordinates self a w)), lon (fst (location_coordinates self a w)))
           (lat (fst (location_coordinates self b (snd (location_coordinates self a w)))),
            lon (fst (location_coordinates self b (snd (location_coordinates self a w)))))"
  using assms by (simp add: location_distance_def split_beta)

lemma coords_of_query:
  "(lat (fst (location_coordinates self n w)), lon (fst (location_coordinates self n w)))
     = coordinate_pair (fst (GeoCoder_query self n w))"
  by (simp add: location_coordinates_def coordinate_pair_def split: prod.splits option.splits)

lemma query_after_other:
  assumes "lower a \<noteq> lower b"
  shows "fst (GeoCoder_query self b (snd (location_coordinates self a w)))
           = fst (GeoCoder_query self b w)"
  using assms query_other_key[of "lower b" a self w]
  by (simp add: query_result coords_world)

text \<open>With a geodesic computation that never raises, the matrix is always built.\<close>

lemma comprehension_total:
  assumes "\<And>x w. x \<in> set xs \<Longrightarrow> \<exists>y w'. f x w = (Inr y, w')"
  shows "\<exists>ys w'. comprehension f xs w = (Inr ys, w')"
  using assms
proof (induction xs arbitrary: w)
  case Nil
  then show ?case by simp
next
  case (Cons x xs)
  obtain y w1 where f: "f x w = (Inr y, w1)"
    using Cons.prems[of x w] by auto
  obtain ys w2 where c: "comprehension f xs w1 = (Inr ys, w2)"
    using Cons.IH[of w1] Cons.prems by auto
  show ?case by (simp add: f c)
qed

lemma build_distance_matrix_total:
  assumes "\<And>p q. \<exists>d. GRC p q = Inr d"
  shows "\<exists>m w'. build_distance_matrix GRC geocoder cities w = (Inr m, w')"
proof -
  have cell: "\<exists>d w'. (if i = j then (Inr 0, u)
                  else location_distance GRC geocoder (cities ! i) (cities ! j) u) = (Inr d, w')"
    for i j u
    using assms by (auto simp: location_distance_def split_beta)
  show ?thesis
    unfolding build_distance_matrix_def
    by (intro comprehension_total) (rule cell)
qed

section \<open>The geocoder touches neither arrays nor solvers\<close>

lemma solver_calls_append: "solver_calls (xs @ ys) = solver_calls xs @ solver_calls ys"
  by (induction xs rule: solver_calls.induct) simp_all

lemma query_frame: "GeoCoder_query self n w = (v, w') \<Longrightarrow> frame w w'"
  by (auto simp: GeoCoder_query_def log_event_def Let_def frame_def solver_calls_append
           split: option.splits)

lemma coords_frame: "location_coordinates self n w = (c, w') \<Longrightarrow> frame w w'"
  by (auto simp: location_coordinates_def split: prod.splits option.splits dest: query_frame)

lemma distance_frame: "location_distance GRC self a b w = (r, w') \<Longrightarrow> frame w w'"
  by (auto simp: location_distance_def frame_def split: if_splits prod.splits
           dest!: coords_frame)

lemma comprehension_frame:
  assumes "\<And>x w r w'. x \<in> set xs \<Longrightarrow> f x w = (r, w') \<Longrightarrow> frame w w'"
    and "comprehension f xs w = (r, w')"
  shows "frame w w'"
  using assms
proof (induction xs arbitrary: w r w')
  case Nil
  then show ?case by (simp add: frame_def)
next
  case (Cons x xs)
  obtain r1 w1 where f: "f x w = (r1, w1)" by fastforce
  have f1: "frame w w1" using Cons.prems(1)[OF _ f] by simp
  show ?case
  proof (cases r1)
    case (Inl e)
    then show ?thesis using Cons.prems(2) f f1 by simp
  next
    case (Inr y)
    obtain r2 w2 where c: "comprehension f xs w1 = (r2, w2)" by fastforce
    have "frame w1 w2" by (rule Cons.IH[OF _ c]) (use Cons.prems(1) in auto)
    moreover have "w' = w2" using Cons.prems(2) f Inr c by (auto split: sum.splits)
    ultimately show ?thesis using f1 by (simp add: frame_def)
  qed
qed

lemma build_frame:
  assumes "build_distance_matrix GRC geocoder cities w = (r, w')"
  shows "heap w' = heap w" and "solver_calls (trace w') = solver_calls (trace w)"
proof -
  let ?cell = "\<lambda>i j w'. if i = j then (Inr 0, w')
                  else location_distance GRC geocoder (cities ! i) (cities ! j) w'"
  have cell: "frame u u'" if "?cell i j u = (q, u')" for i j u q u'
    using that by (auto simp: frame_def split: if_splits dest: distance_frame)
  have row: "frame u u'" if "comprehension (?cell i) [0..<length cities] u = (q, u')" for i u q u'
    by (rule comprehension_frame[OF _ that]) (use cell in blast)
  have "frame w w'"
    by (rule comprehension_frame[OF _ assms[unfolded build_distance_matrix_def]])
       (use row in blast)
  then show "heap w' = heap w" and "solver_calls (trace w') = solver_calls (trace w)"
    by (simp_all add: frame_def)
qed

lemma comprehension_const:
  "(\<And>x. x \<in> set xs \<Longrightarrow> f x w = (Inr (h x), w)) \<Longrightarrow> comprehension f xs w = (Inr (map h xs), w)"
  by (induction xs) simp_all

lemma build_same_names:
  assumes "\<And>a b. a \<in> set cities \<Longrightarrow> b \<in> set cities \<Longrightarrow> lower a = lower b"
  shows "build_distance_matrix GRC geocoder cities w
           = (Inr (replicate (length cities) (replicate (length cities) 0)), w)"
proof -
  let ?n = "length cities"
  let ?cell = "\<lambda>i j w'. if i = j then (Inr 0, w')
                  else location_distance GRC geocoder (cities ! i) (cities ! j) w'"
  have cell: "?cell i j w = (Inr 0, w)" if "i < ?n" "j < ?n" for i j
    using that assms[of "cities ! i" "cities ! j"] by (simp add: location_distance_def)
  have row: "comprehension (?cell i) [0..<?n] w = (Inr (map (\<lambda>j. 0) [0..<?n]), w)"
    if "i < ?n" for i
    by (rule comprehension_const) (use cell that in simp)
  have "comprehension (\<lambda>i. comprehension (?cell i) [0..<?n]) [0..<?n] w
          = (Inr (map (\<lambda>i. map (\<lambda>j. 0) [0..<?n]) [0..<?n]), w)"
    by (rule comprehension_const) (use row in simp)
  then show ?thesis
    by (simp add: build_distance_matrix_def map_replicate_const)
qed

section \<open>What solve does\<close>

lemma solve_built:
  assumes "1 < length cities"
    and "build_distance_matrix GRC (TSPSolver_geocoder self) cities w = (Inr m, w1)"
  shows "solve tsp GRC self cities open_problem w =
     (solver_result cities
        ((if length cities < 10 then solve_tsp_dynamic_programming tsp
          else solve_tsp_simulated_annealing tsp) (working_matrix open_problem m)),
      self\<lparr>TSPSolver_distance_matrix := length (heap w1)\<rparr>,
      w1\<lparr>heap := heap w1 @ [m, working_matrix open_problem m],
         trace := trace w1 @
           [SolverCall (if length cities < 10 then DynamicProgramming else SimulatedAnnealing)
              (working_matrix open_problem m)]\<rparr>)"
proof -
  have upd: "(heap w1 @ [m, m])[Suc (length (heap w1)) := x] = heap w1 @ [m, x]" for x
    by (simp add: list_update_append)
  show ?thesis
    using assms
    by (cases open_problem)
       (simp_all add: solve_def np_array_def np_copy_def alloc_def set_column_def log_event_def
          working_matrix_def opened_def solver_result_def nth_append upd Let_def split: sum.splits prod.splits)
qed

lemma solve_failed_build:
  assumes "1 < length cities"
    and "build_distance_matrix GRC (TSPSolver_geocoder self) cities w = (Inl e, w1)"
  shows "solve tsp GRC self cities open_problem w = (Inl e, self, w1)"
  using assms by (simp add: solve_def split: prod.splits)

lemma solve_degenerate:
  "length cities \<le> 1 \<Longrightarrow> solve tsp GRC self cities open_problem w = (Inr (cities, 0), self, w)"
  by (simp add: solve_def)

lemma built_shape:
  assumes "build_distance_matrix GRC geocoder cities w = (Inr m, w')"
  shows "length m = length cities" and "i < length cities \<Longrightarrow> length (m ! i) = length cities"
    and "i < length cities \<Longrightarrow> j < length cities \<Longrightarrow>
         m ! i ! j = (if i = j then 0 else cached_distance GRC w' (cities ! i) (cities ! j))"
  using build_distance_matrix_cache(2)[OF assms refl] by simp_all

lemma cached_distance_sym:
  assumes "\<And>p q. GRC p q = GRC q p"
  shows "cached_distance GRC w a b = cached_distance GRC w b a"
  using assms[of "(lat (cached_coords w a), lon (cached_coords w a))"
               "(lat (cached_coords w b), lon (cached_coords w b))"]
  by (auto simp: cached_distance_def)

lemma cached_distance_nonneg:
  assumes "\<And>p q d. GRC p q = Inr d \<Longrightarrow> 0 \<le> d"
  shows "0 \<le> cached_distance GRC w a b"
  using assms by (auto simp: cached_distance_def split: sum.splits)

lemma init_matrix:
  "TSPSolver_init geocoder u w = (s0, w0) \<Longrightarrow>
   distance_matrix s0 w0 = [[u 0 0, u 0 1], [u 1 0, u 1 1]]"
  by (auto simp: TSPSolver_init_def np_empty_def alloc_def distance_matrix_def eval_nat_numeral)

lemma route_in_range:
  "(\<And>i. i \<in> set idx \<Longrightarrow> 0 \<le> i \<and> i < int (length cities)) \<Longrightarrow>
   route cities idx = Inr (map (\<lambda>i. cities ! nat i) idx)"
  by (induction idx) (simp_all add: getitem_def)

lemma route_permutation:
  assumes "mset idx = mset (map int [0..<length cities])"
  shows "route cities idx = Inr (map (\<lambda>i. cities ! nat i) idx)"
    and "mset (map (\<lambda>i. cities ! nat i) idx) = mset cities"
proof -
  have s: "set idx = set (map int [0..<length cities])"
    using assms by (metis set_mset_mset)
  show "route cities idx = Inr (map (\<lambda>i. cities ! nat i) idx)"
    by (rule route_in_range) (use s in auto)
  have "mset (map (\<lambda>i. cities ! nat i) idx) = image_mset (\<lambda>i. cities ! nat i) (mset idx)"
    by simp
  also have "\<dots> = mset (map (\<lambda>i. cities ! nat i) (map int [0..<length cities]))"
    by (simp only: assms mset_map)
  also have "\<dots> = mset (map ((!) cities) [0..<length cities])"
    by (simp add: comp_def)
  also have "\<dots> = mset cities"
    by (simp only: map_nth)
  finally show "mset (map (\<lambda>i. cities ! nat i) idx) = mset cities" .
qed

lemma solve_returned:
  assumes len: "1 < length cities"
    and ret: "solve tsp GRC self cities open_problem w = (Inr (r, d), self', w')"
  obtains m w1 idx where
    "build_distance_matrix GRC (TSPSolver_geocoder self) cities w = (Inr m, w1)"
    "(if length cities < 10 then solve_tsp_dynamic_programming tsp
      else solve_tsp_simulated_annealing tsp) (working_matrix open_problem m) = Inr (idx, d)"
    "route cities idx = Inr r"
    "distance_matrix self' w' = m"
proof -
  obtain rb w1 where b: "build_distance_matrix GRC (TSPSolver_geocoder self) cities w = (rb, w1)"
    by fastforce
  show thesis
  proof (cases rb)
    case (Inl e)
    then show ?thesis using ret solve_failed_build[OF len b[unfolded Inl]] by simp
  next
    case (Inr m)
    note sb = solve_built[OF len b[unfolded Inr], of tsp open_problem]
    have "solver_result cities
        ((if length cities < 10 then solve_tsp_dynamic_programming tsp
          else solve_tsp_simulated_annealing tsp) (working_matrix open_problem m)) = Inr (r, d)"
      using ret sb by simp
    then obtain idx where
      "(if length cities < 10 then solve_tsp_dynamic_programming tsp
        else solve_tsp_simulated_annealing tsp) (working_matrix open_problem m) = Inr (idx, d)"
      "route cities idx = Inr r"
      by (auto simp: solver_result_def split: sum.splits prod.splits)
    moreover have "distance_matrix self' w' = m"
      using ret sb by (auto simp: distance_matrix_def)
    ultimately show ?thesis using that b Inr by blast
  qed
qed

lemma length_working_matrix: "length (working_matrix open_problem m) = length m"
  by (simp add: working_matrix_def opened_def)

section \<open>Facts about the example inputs\<close>

lemma lower_rome: "lower ''rome'' = ''rome''" "lower ''Rome'' = ''rome''" "lower ''ROME'' = ''rome''"
  by code_simp+

lemma lower_milan: "lower ''milan'' = ''milan''" "lower ''Milan'' = ''milan''"
  by code_simp+

lemma example_GRC_sym: "example_GRC p q = example_GRC q p"
  by (auto simp: example_GRC_def split: option.splits prod.splits)

lemma example_GRC_nonneg: "example_GRC p q = Inr d \<Longrightarrow> 0 \<le> d"
  by (auto simp: example_GRC_def split: option.splits prod.splits)

lemma example_init:
  "example_self = \<lparr>TSPSolver_geocoder = example_geocoder, TSPSolver_distance_matrix = 0\<rparr>"
  "example_world = \<lparr>LOCATION_CACHE = Map.empty, heap = [[[1, 1], [1, 1]]], trace = []\<rparr>"
  by (simp_all add: example_self_def example_world_def TSPSolver_init_def np_empty_def alloc_def
        start_world_def eval_nat_numeral)

lemma example_built:
  "fst (build_distance_matrix example_GRC example_geocoder [''Rome'', ''Milan''] example_world)
     = Inr [[0, 7], [7, 0]]"
  by (simp add: build_distance_matrix_def location_distance_def location_coordinates_def
        GeoCoder_query_def log_event_def lower_rome lower_milan example_geocoder_def
        example_GRC_def example_init Let_def)

lemma example_tsp_sel:
  "solve_tsp_dynamic_programming example_tsp = example_solver"
  "solve_tsp_simulated_annealing example_tsp = example_heuristic"
  by (simp_all add: example_tsp_def)

lemma example_same_built:
  "build_distance_matrix example_GRC (TSPSolver_geocoder example_self) (replicate n ''Rome'')
     example_world = (Inr (replicate n (replicate n 0)), example_world)"
  using build_same_names[of "replicate n ''Rome''" example_GRC "TSPSolver_geocoder example_self"
      example_world]
  by simp

lemma example_tour_perm: "mset (example_tour n) = mset [0..<n]"
proof (cases n)
  case 0
  then show ?thesis by (simp add: example_tour_def)
next
  case (Suc k)
  have "[0..<Suc k] = 0 # [1..<Suc k]" by (simp add: upt_conv_Cons)
  then show ?thesis using Suc by (simp add: example_tour_def)
qed

lemma example_solver_perm:
  "example_solver m = Inr (idx, d) \<Longrightarrow> mset idx = mset (map int [0..<length m])"
  using example_tour_perm[of "length m"] by (auto simp: example_solver_def)

lemma example_heuristic_perm:
  "example_heuristic m = Inr (idx, d) \<Longrightarrow> mset idx = mset (map int [0..<length m])"
  by (auto simp: example_heuristic_def)

lemma example_built3:
  "fst (build_distance_matrix example_GRC example_geocoder [''Rome'', ''Milan'', ''rome'']
          example_world) = Inr [[0, 7, 0], [7, 0, 7], [0, 7, 0]]"
  by (simp add: build_distance_matrix_def location_distance_def location_coordinates_def
        GeoCoder_query_def log_event_def lower_rome lower_milan example_geocoder_def
        example_GRC_def example_init Let_def)

lemma example_solve3:
  "fst (solve example_tsp example_GRC example_self [''Rome'', ''Milan'', ''rome''] False
          example_world) = Inr ([''Rome'', ''rome'', ''Milan''], 14)"
proof -
  let ?b = "build_distance_matrix example_GRC (TSPSolver_geocoder example_self)
          [''Rome'', ''Milan'', ''rome''] example_world"
  have "fst ?b = Inr [[0, 7, 0], [7, 0, 7], [0, 7, 0]]"
    using example_built3 by (simp add: example_init(1))
  then have b: "?b = (Inr [[0, 7, 0], [7, 0, 7], [0, 7, 0]], snd ?b)"
    by (simp add: prod_eq_iff)
  have len: "1 < length [''Rome'', ''Milan'', ''rome'']" by simp
  have t: "example_tour (Suc (Suc (Suc 0))) = [0, 2, 1]"
    by (simp add: example_tour_def eval_nat_numeral upt_conv_Cons)
  show ?thesis
    by (simp add: solve_built[OF len b] example_tsp_sel working_matrix_def solver_result_def
          example_solver_def t tour_distance_def getitem_def)
qed

lemma example_solve2_open:
  "fst (solve example_tsp example_GRC example_self [''Rome'', ''Milan''] True example_world)
     = Inr ([''Rome'', ''Milan''], 7)"
  and example_solve2_matrix: "distance_matrix
        (fst (snd (solve example_tsp example_GRC example_self [''Rome'', ''Milan''] True
          example_world)))
        (snd (snd (solve example_tsp example_GRC example_self [''Rome'', ''Milan''] True
          example_world))) = [[0, 7], [7, 0]]"
proof -
  let ?b = "build_distance_matrix example_GRC (TSPSolver_geocoder example_self)
          [''Rome'', ''Milan''] example_world"
  have "fst ?b = Inr [[0, 7], [7, 0]]"
    using example_built by (simp add: example_init(1))
  then have b: "?b = (Inr [[0, 7], [7, 0]], snd ?b)"
    by (simp add: prod_eq_iff)
  have len: "1 < length [''Rome'', ''Milan'']" by simp
  have t: "example_tour (Suc (Suc 0)) = [0, 1]"
    by (simp add: example_tour_def)
  show "fst (solve example_tsp example_GRC example_self [''Rome'', ''Milan''] True example_world)
     = Inr ([''Rome'', ''Milan''], 7)"
    by (simp add: solve_built[OF len b] example_tsp_sel working_matrix_def opened_def
          solver_result_def example_solver_def t tour_distance_def getitem_def)
  show "distance_matrix
        (fst (snd (solve example_tsp example_GRC example_self [''Rome'', ''Milan''] True
          example_world)))
        (snd (snd (solve example_tsp example_GRC example_self [''Rome'', ''Milan''] True
          example_world))) = [[0, 7], [7, 0]]"
    by (simp add: solve_built[OF len b] distance_matrix_def)
qed

lemma lower_atlantis: "lower ''Atlantis'' = ''atlantis''"
  by code_simp

lemma example_query_rome:
  "fst (GeoCoder_query example_geocoder ''Rome'' example_world)
     = Some \<lparr>latitude = 41, longitude = 12\<rparr>"
  by (simp add: query_result lower_rome example_geocoder_def example_init)

lemma example_unresolved_atlantis: "unresolved example_geocoder ''Atlantis'' example_world"
  by (simp add: unresolved_def query_result lower_atlantis example_geocoder_def example_init)

section \<open>The distance matrix\<close>

text \<open>
  C5. For a list of more than one place, when the matrix is built (no distance
  computation raised; with a geodesic computation that never raises it always is),
  \<open>solve\<close> stores it, and it is square of the size of the list, with a zero diagonal,
  non-negative entries and \<open>m[i][j] = m[j][i]\<close>, for a geodesic distance that is
  symmetric and returns no negative value. The provider is a function of the name,
  and the cache may hold anything when the call starts.
\<close>

theorem distance_matrix_square_symmetric:
  assumes sym: "\<And>p q. GRC p q = GRC q p"
    and nonneg: "\<And>p q d. GRC p q = Inr d \<Longrightarrow> 0 \<le> d"
    and len: "1 < length cities"
    and built: "build_distance_matrix GRC (TSPSolver_geocoder self) cities w = (Inr m, w1)"
  shows "(case solve tsp GRC self cities open_problem w of
            (res, self', w') \<Rightarrow> distance_matrix self' w' = m) \<and>
         length m = length cities \<and>
         (\<forall>i < length cities. length (m ! i) = length cities \<and> m ! i ! i = 0 \<and>
            (\<forall>j < length cities. 0 \<le> m ! i ! j \<and> m ! i ! j = m ! j ! i))"
proof -
  have stored: "case solve tsp GRC self cities open_problem w of
            (res, self', w') \<Rightarrow> distance_matrix self' w' = m"
    by (simp add: solve_built[OF len built] distance_matrix_def)
  have entries: "0 \<le> m ! i ! j \<and> m ! i ! j = m ! j ! i"
    if "i < length cities" "j < length cities" for i j
    using that built_shape(3)[OF built] cached_distance_sym[of GRC, OF sym]
      cached_distance_nonneg[of GRC, OF nonneg]
    by auto
  show ?thesis
    using stored entries built_shape[OF built] by simp
qed

theorem distance_matrix_square_symmetric_witness:
  "fst (build_distance_matrix example_GRC (TSPSolver_geocoder example_self)
          [''Rome'', ''Milan''] example_world) = Inr [[0, 7], [7, 0]] \<and>
   (case solve example_tsp example_GRC example_self [''Rome'', ''Milan''] True example_world of
      (res, self', w') \<Rightarrow> distance_matrix self' w' = [[0, 7], [7, 0]])"
proof -
  let ?b = "build_distance_matrix example_GRC (TSPSolver_geocoder example_self)
          [''Rome'', ''Milan''] example_world"
  have f: "fst ?b = Inr [[0, 7], [7, 0]]"
    using example_built by (simp add: example_init(1))
  then have b: "?b = (Inr [[0, 7], [7, 0]], snd ?b)"
    by (simp add: prod_eq_iff)
  have len: "1 < length [''Rome'', ''Milan'']" by simp
  show ?thesis
    using f distance_matrix_square_symmetric[where tsp = example_tsp and open_problem = True,
        OF example_GRC_sym example_GRC_nonneg len b]
    by simp
qed

section \<open>Degenerate inputs\<close>

text \<open>
  C4. For a list of length 0 or 1, \<open>solve\<close> returns the list unchanged with distance
  0, and leaves the solver object and the whole world as they were: no array is
  created, and the trace gains no solver call, provider call or cache access.
\<close>

theorem solve_degenerate_unchanged:
  "length cities \<le> 1 \<Longrightarrow>
   solve tsp GRC self cities open_problem w = (Inr (cities, 0), self, w)"
  by (simp add: solve_def)

theorem solve_degenerate_unchanged_witness:
  "solve example_tsp example_GRC example_self [''Rome''] True example_world
     = (Inr ([''Rome''], 0), example_self, example_world) \<and>
   solve example_tsp example_GRC example_self [] False example_world
     = (Inr ([], 0), example_self, example_world)"
  using solve_degenerate_unchanged[of "[''Rome'']" example_tsp example_GRC example_self True example_world]
    solve_degenerate_unchanged[of "[]" example_tsp example_GRC example_self False example_world]
  by simp

section \<open>The geocoder\<close>

text \<open>
  C7. For two names that are equal after \<open>lower\<close>, \<open>location_distance\<close> returns 0 and
  leaves the world as it was: the cache is unchanged and the trace gains no cache
  access and no provider call.
\<close>

theorem location_distance_same_name:
  "lower location_name_1 = lower location_name_2 \<Longrightarrow>
   location_distance GRC self location_name_1 location_name_2 w = (Inr 0, w)"
  by (simp add: location_distance_def)

theorem location_distance_same_name_witness:
  "location_distance example_GRC example_geocoder ''Rome'' ''ROME'' example_world
     = (Inr 0, example_world) \<and>
   location_distance example_GRC example_geocoder ''Rome'' ''Rome'' example_world
     = (Inr 0, example_world)"
proof -
  have v: "lower ''Rome'' = lower ''ROME''" by (simp add: lower_rome)
  show ?thesis
    using location_distance_same_name[OF v, of example_GRC example_geocoder example_world]
      location_distance_same_name[OF refl, of example_GRC example_geocoder "''Rome''" example_world]
    by simp
qed

section \<open>Solver selection and the working copy\<close>

text \<open>
  C3. For a list of more than one place whose matrix is built, \<open>solve\<close> makes exactly
  one solver call: with fewer than 10 places it calls the dynamic-programming solver
  and returns what that solver returns; with 10 places or more it calls the
  simulated-annealing solver and returns what that one returns. The witness runs a
  list of 9 places and a list of 10.
\<close>

theorem solve_selects_solver:
  assumes len: "1 < length cities"
    and built: "build_distance_matrix GRC (TSPSolver_geocoder self) cities w = (Inr m, w1)"
  shows "case solve tsp GRC self cities open_problem w of
           (res, self', w') \<Rightarrow>
             (length cities < 10 \<longrightarrow>
                solver_calls (trace w') = solver_calls (trace w) @
                  [(DynamicProgramming, working_matrix open_problem m)] \<and>
                res = solver_result cities
                  (solve_tsp_dynamic_programming tsp (working_matrix open_problem m))) \<and>
             (10 \<le> length cities \<longrightarrow>
                solver_calls (trace w') = solver_calls (trace w) @
                  [(SimulatedAnnealing, working_matrix open_problem m)] \<and>
                res = solver_result cities
                  (solve_tsp_simulated_annealing tsp (working_matrix open_problem m)))"
  using build_frame(2)[OF built]
  by (simp add: solve_built[OF len built] solver_calls_append)

theorem solve_selects_solver_witness:
  "solver_calls (trace (snd (snd (solve example_tsp example_GRC example_self
        (replicate 9 ''Rome'') False example_world))))
     = [(DynamicProgramming, replicate 9 (replicate 9 0))] \<and>
   solver_calls (trace (snd (snd (solve example_tsp example_GRC example_self
        (replicate 10 ''Rome'') False example_world))))
     = [(SimulatedAnnealing, replicate 10 (replicate 10 0))]"
proof -
  have l9: "1 < length (replicate 9 ''Rome'')" and l10: "1 < length (replicate 10 ''Rome'')"
    by simp_all
  show ?thesis
    using solve_selects_solver[where tsp = example_tsp and open_problem = False,
        OF l9 example_same_built]
      solve_selects_solver[where tsp = example_tsp and open_problem = False,
        OF l10 example_same_built]
    by (simp add: split_beta working_matrix_def example_init)
qed

text \<open>
  C6. With \<open>open_problem\<close> true and more than one place, \<open>solve\<close> creates two arrays:
  the matrix as built, which \<open>self._distance_matrix\<close> refers to after the call, and a
  copy with column 0 set to zero, which is what the solver is given. The property
  \<open>distance_matrix\<close> therefore shows the matrix as built, and the arrays that existed
  before the call are untouched.
\<close>

theorem open_problem_zeroes_copy_only:
  assumes len: "1 < length cities"
    and built: "build_distance_matrix GRC (TSPSolver_geocoder self) cities w = (Inr m, w1)"
  shows "case solve tsp GRC self cities True w of
           (res, self', w') \<Rightarrow>
             distance_matrix self' w' = m \<and>
             TSPSolver_distance_matrix self' = length (heap w) \<and>
             heap w' = heap w @ [m, opened m] \<and>
             solver_calls (trace w') = solver_calls (trace w) @
               [(if length cities < 10 then DynamicProgramming else SimulatedAnnealing, opened m)]"
  using build_frame[OF built]
  by (simp add: solve_built[OF len built] solver_calls_append distance_matrix_def
        working_matrix_def)

theorem open_problem_zeroes_copy_only_witness:
  "(case solve example_tsp example_GRC example_self [''Rome'', ''Milan''] True example_world of
      (res, self', w') \<Rightarrow>
        distance_matrix self' w' = [[0, 7], [7, 0]] \<and>
        heap w' = [[[1, 1], [1, 1]], [[0, 7], [7, 0]], [[0, 7], [0, 0]]] \<and>
        solver_calls (trace w') = [(DynamicProgramming, [[0, 7], [0, 0]])])"
proof -
  let ?b = "build_distance_matrix example_GRC (TSPSolver_geocoder example_self)
          [''Rome'', ''Milan''] example_world"
  have "fst ?b = Inr [[0, 7], [7, 0]]"
    using example_built by (simp add: example_init(1))
  then have b: "?b = (Inr [[0, 7], [7, 0]], snd ?b)"
    by (simp add: prod_eq_iff)
  have len: "1 < length [''Rome'', ''Milan'']" by simp
  show ?thesis
    using open_problem_zeroes_copy_only[where tsp = example_tsp, OF len b]
    by (simp add: split_beta opened_def example_init)
qed

section \<open>The stored matrix after a degenerate call\<close>

text \<open>
  C10. A call of \<open>solve\<close> with a list of length 0 or 1 leaves the array shown by
  \<open>distance_matrix\<close> as it was. On a solver object just constructed this is the
  uninitialised 2 by 2 array; after a call that built the matrix \<open>m\<close> of a longer
  list it is still \<open>m\<close>. In both cases its size is not the length of the list of the
  degenerate call.
\<close>

theorem degenerate_keeps_distance_matrix:
  assumes deg: "length cities \<le> 1"
  shows "(case solve tsp GRC self cities open_problem w of
            (res, self', w') \<Rightarrow> distance_matrix self' w' = distance_matrix self w) \<and>
         (case TSPSolver_init geocoder u w of
            (s0, w0) \<Rightarrow>
              (case solve tsp GRC s0 cities open_problem w0 of
                 (res, self', w') \<Rightarrow>
                   distance_matrix self' w' = [[u 0 0, u 0 1], [u 1 0, u 1 1]] \<and>
                   length (distance_matrix self' w') \<noteq> length cities)) \<and>
         (1 < length previous \<and>
          build_distance_matrix GRC (TSPSolver_geocoder self) previous w = (Inr m, w1) \<longrightarrow>
          (case solve tsp GRC self previous open_previous w of
             (res1, self1, w2) \<Rightarrow>
               (case solve tsp GRC self1 cities open_problem w2 of
                  (res, self', w') \<Rightarrow>
                    distance_matrix self' w' = m \<and>
                    length (distance_matrix self' w') \<noteq> length cities)))"
proof (intro conjI impI)
  show "case solve tsp GRC self cities open_problem w of
            (res, self', w') \<Rightarrow> distance_matrix self' w' = distance_matrix self w"
    by (simp add: solve_degenerate[OF deg])
next
  obtain s0 w0 where i: "TSPSolver_init geocoder u w = (s0, w0)" by fastforce
  show "case TSPSolver_init geocoder u w of
            (s0, w0) \<Rightarrow>
              (case solve tsp GRC s0 cities open_problem w0 of
                 (res, self', w') \<Rightarrow>
                   distance_matrix self' w' = [[u 0 0, u 0 1], [u 1 0, u 1 1]] \<and>
                   length (distance_matrix self' w') \<noteq> length cities)"
    using deg by (simp add: i solve_degenerate[OF deg] init_matrix[OF i])
next
  assume p: "1 < length previous \<and>
            build_distance_matrix GRC (TSPSolver_geocoder self) previous w = (Inr m, w1)"
  then have len: "1 < length previous"
    and built: "build_distance_matrix GRC (TSPSolver_geocoder self) previous w = (Inr m, w1)"
    by simp_all
  show "case solve tsp GRC self previous open_previous w of
               (res1, self1, w2) \<Rightarrow>
                 (case solve tsp GRC self1 cities open_problem w2 of
                    (res, self', w') \<Rightarrow>
                      distance_matrix self' w' = m \<and>
                      length (distance_matrix self' w') \<noteq> length cities)"
    using deg len built_shape(1)[OF built]
    by (simp add: solve_built[OF len built] solve_degenerate[OF deg] distance_matrix_def)
qed

theorem degenerate_keeps_distance_matrix_witness:
  "(case solve example_tsp example_GRC example_self [''Rome''] False example_world of
      (res, self', w') \<Rightarrow> distance_matrix self' w' = [[1, 1], [1, 1]]) \<and>
   (case solve example_tsp example_GRC example_self [''Rome'', ''Milan''] False example_world of
      (res1, self1, w2) \<Rightarrow>
        (case solve example_tsp example_GRC self1 [''Rome''] False w2 of
           (res, self', w') \<Rightarrow> distance_matrix self' w' = [[0, 7], [7, 0]]))"
proof -
  let ?b = "build_distance_matrix example_GRC (TSPSolver_geocoder example_self)
          [''Rome'', ''Milan''] example_world"
  have "fst ?b = Inr [[0, 7], [7, 0]]"
    using example_built by (simp add: example_init(1))
  then have b: "?b = (Inr [[0, 7], [7, 0]], snd ?b)"
    by (simp add: prod_eq_iff)
  have deg: "length [''Rome''] \<le> 1" by simp
  have i: "distance_matrix example_self example_world = [[1, 1], [1, 1]]"
    by (simp add: example_init distance_matrix_def)
  note t = degenerate_keeps_distance_matrix[where tsp = example_tsp and GRC = example_GRC
        and self = example_self and w = example_world and open_problem = False
        and previous = "[''Rome'', ''Milan'']" and open_previous = False
        and m = "[[0, 7], [7, 0]]" and ?w1.0 = "snd ?b", OF deg]
  have first: "case solve example_tsp example_GRC example_self [''Rome''] False example_world of
      (res, self', w') \<Rightarrow> distance_matrix self' w' = [[1, 1], [1, 1]]"
    using t i by (simp add: split_beta)
  have second: "case solve example_tsp example_GRC example_self [''Rome'', ''Milan''] False example_world of
      (res1, self1, w2) \<Rightarrow>
        (case solve example_tsp example_GRC self1 [''Rome''] False w2 of
           (res, self', w') \<Rightarrow> distance_matrix self' w' = [[0, 7], [7, 0]])"
    using t b by (simp add: split_beta)
  show ?thesis using first second by blast
qed

section \<open>The returned route and distance\<close>

text \<open>
  C1. For a list of more than one place, when each solver returns only permutations
  of the indices \<open>0..N-1\<close> of the matrix it is given, every route that \<open>solve\<close>
  returns is a permutation of the input: the same multiset of names and the same
  length.
\<close>

theorem solve_permutation:
  assumes len: "1 < length cities"
    and dp: "\<And>m idx d. solve_tsp_dynamic_programming tsp m = Inr (idx, d) \<Longrightarrow>
               mset idx = mset (map int [0..<length m])"
    and sa: "\<And>m idx d. solve_tsp_simulated_annealing tsp m = Inr (idx, d) \<Longrightarrow>
               mset idx = mset (map int [0..<length m])"
    and ret: "solve tsp GRC self cities open_problem w = (Inr (r, d), self', w')"
  shows "mset r = mset cities \<and> length r = length cities"
proof -
  from len ret obtain m w1 idx where
    b: "build_distance_matrix GRC (TSPSolver_geocoder self) cities w = (Inr m, w1)"
    and s: "(if length cities < 10 then solve_tsp_dynamic_programming tsp
      else solve_tsp_simulated_annealing tsp) (working_matrix open_problem m) = Inr (idx, d)"
    and rt: "route cities idx = Inr r"
    by (rule solve_returned)
  have "mset idx = mset (map int [0..<length (working_matrix open_problem m)])"
    using s dp sa by (auto split: if_splits)
  then have p: "mset idx = mset (map int [0..<length cities])"
    by (simp add: length_working_matrix built_shape(1)[OF b])
  have "r = map (\<lambda>i. cities ! nat i) idx"
    using route_permutation(1)[OF p] rt by simp
  then have "mset r = mset cities"
    using route_permutation(2)[OF p] by simp
  then show ?thesis by (metis size_mset)
qed

theorem solve_permutation_witness:
  "fst (solve example_tsp example_GRC example_self [''Rome'', ''Milan'', ''rome''] False
          example_world) = Inr ([''Rome'', ''rome'', ''Milan''], 14) \<and>
   mset [''Rome'', ''rome'', ''Milan''] = mset [''Rome'', ''Milan'', ''rome''] \<and>
   length [''Rome'', ''rome'', ''Milan''] = length [''Rome'', ''Milan'', ''rome'']"
proof -
  let ?s = "solve example_tsp example_GRC example_self [''Rome'', ''Milan'', ''rome''] False
          example_world"
  have ret: "?s = (Inr ([''Rome'', ''rome'', ''Milan''], 14), fst (snd ?s), snd (snd ?s))"
    using example_solve3 by (simp add: prod_eq_iff)
  have len: "1 < length [''Rome'', ''Milan'', ''rome'']" by simp
  show ?thesis
    using example_solve3
      solve_permutation[where tsp = example_tsp, OF len _ _ ret]
      example_solver_perm example_heuristic_perm
    by (simp only: example_tsp_sel)
qed

text \<open>
  C2, as the code has it. With \<open>open_problem\<close> true and more than one place, the
  distance that \<open>solve\<close> returns is the distance that the selected solver reports
  for the copy with column 0 set to zero; the stored matrix, which is the one as
  built, is not used for it.
\<close>

theorem open_problem_reports_solver_distance:
  assumes len: "1 < length cities"
    and ret: "solve tsp GRC self cities True w = (Inr (r, d), self', w')"
  shows "\<exists>idx.
           (if length cities < 10 then solve_tsp_dynamic_programming tsp
            else solve_tsp_simulated_annealing tsp) (opened (distance_matrix self' w'))
             = Inr (idx, d) \<and>
           route cities idx = Inr r"
proof -
  from len ret obtain m w1 idx where
    "(if length cities < 10 then solve_tsp_dynamic_programming tsp
      else solve_tsp_simulated_annealing tsp) (working_matrix True m) = Inr (idx, d)"
    and "route cities idx = Inr r"
    and "distance_matrix self' w' = m"
    by (rule solve_returned)
  then show ?thesis by (auto simp: working_matrix_def)
qed

theorem open_problem_reports_solver_distance_witness:
  "\<exists>idx. example_solver (opened [[0, 7], [7, 0]]) = Inr (idx, 7) \<and>
          route [''Rome'', ''Milan''] idx = Inr [''Rome'', ''Milan'']"
proof -
  let ?s = "solve example_tsp example_GRC example_self [''Rome'', ''Milan''] True example_world"
  have len: "1 < length [''Rome'', ''Milan'']" by simp
  have ret: "?s = (Inr ([''Rome'', ''Milan''], 7), fst (snd ?s), snd (snd ?s))"
    using example_solve2_open by (simp add: prod_eq_iff)
  show ?thesis
    using open_problem_reports_solver_distance[OF len ret]
    by (simp add: example_solve2_matrix example_tsp_sel)
qed

text \<open>
  C2, as the claim has it, fails for a solver that reports the tour distance in the
  matrix it is given: for Rome and Milan, 7 apart, the open problem returns the order
  Rome, Milan with distance 7, while the closed tour of that order in the stored
  matrix is 14.
\<close>

theorem open_problem_distance_counterexample:
  "case solve example_tsp example_GRC example_self [''Rome'', ''Milan''] True example_world of
     (res, self', w') \<Rightarrow>
       res = Inr ([''Rome'', ''Milan''], 7) \<and>
       distance_matrix self' w' = [[0, 7], [7, 0]] \<and>
       tour_distance (distance_matrix self' w') [0, 1] = 14"
proof -
  have "tour_distance [[0, 7], [7, 0]] [0, 1] = 14"
    by (simp add: tour_distance_def)
  then show ?thesis
    using example_solve2_open
    by (simp add: split_beta example_solve2_matrix)
qed

section \<open>The cache across queries, and unresolved names\<close>

text \<open>
  C8. A query stores its result under the lower-cased name; when the name was not in
  the cache, the result is the provider's (\<^verbatim>\<open>None\<close> included) and the provider is
  called once. After any further queries by any \<^verbatim>\<open>GeoCoder\<close> objects, a query for any
  name with the same lower-cased form returns the same value, leaves the cache as it
  is and adds two cache reads and no provider call to the trace. No lower-cased name
  is looked up twice: this holds after any queries from an empty cache, and is kept
  by every query.
\<close>

theorem query_cached_once:
  assumes first: "GeoCoder_query self location_name w = (v, w1)"
    and variant: "lower other_name = lower location_name"
    and later: "run_queries qs w1 = w2"
  shows "LOCATION_CACHE w1 (lower location_name) = Some v \<and>
         (LOCATION_CACHE w (lower location_name) = None \<longrightarrow>
            v = GeoCoder_geocoder self location_name \<and>
            provider_calls (trace w1) = provider_calls (trace w) @ [location_name]) \<and>
         GeoCoder_query other other_name w2
           = (v, w2\<lparr>trace := trace w2 @
                [CacheRead (lower location_name), CacheRead (lower location_name)]\<rparr>) \<and>
         (looked_up_once w \<longrightarrow> looked_up_once w2) \<and>
         distinct (map lower (provider_calls (trace
           (run_queries qs (w\<lparr>LOCATION_CACHE := Map.empty, trace := []\<rparr>)))))"
proof (intro conjI impI)
  show stored: "LOCATION_CACHE w1 (lower location_name) = Some v"
    by (rule query_cache(2)[OF first])
  have "LOCATION_CACHE w2 (lower other_name) = Some v"
    using run_queries_cache_le[of w1 qs] stored later variant cache_le_lookup by auto
  from query_hit[OF this, of other] variant
  show "GeoCoder_query other other_name w2
           = (v, w2\<lparr>trace := trace w2 @
                [CacheRead (lower location_name), CacheRead (lower location_name)]\<rparr>)"
    by simp
next
  assume none: "LOCATION_CACHE w (lower location_name) = None"
  show "v = GeoCoder_geocoder self location_name"
    using first query_miss[OF none, of self] by simp
  show "provider_calls (trace w1) = provider_calls (trace w) @ [location_name]"
    using first query_miss[OF none, of self] by (auto simp: provider_calls_append)
next
  assume "looked_up_once w"
  then have "looked_up_once w1"
    using query_looked_up_once[of w self location_name] first by simp
  then show "looked_up_once w2"
    using later run_queries_looked_up_once by blast
next
  have "looked_up_once (w\<lparr>LOCATION_CACHE := Map.empty, trace := []\<rparr>)"
    by (simp add: looked_up_once_def)
  then have "looked_up_once (run_queries qs (w\<lparr>LOCATION_CACHE := Map.empty, trace := []\<rparr>))"
    by (rule run_queries_looked_up_once)
  then show "distinct (map lower (provider_calls (trace
           (run_queries qs (w\<lparr>LOCATION_CACHE := Map.empty, trace := []\<rparr>)))))"
    by (simp add: looked_up_once_def)
qed

theorem query_cached_once_witness:
  "fst (GeoCoder_query example_geocoder ''Rome'' example_world)
     = Some \<lparr>latitude = 41, longitude = 12\<rparr> \<and>
   fst (GeoCoder_query example_geocoder ''ROME''
          (run_queries [(example_geocoder, ''Milan''), (example_geocoder, ''rome'')]
             (snd (GeoCoder_query example_geocoder ''Rome'' example_world))))
     = Some \<lparr>latitude = 41, longitude = 12\<rparr> \<and>
   provider_calls (trace (snd (GeoCoder_query example_geocoder ''ROME''
          (run_queries [(example_geocoder, ''Milan''), (example_geocoder, ''rome'')]
             (snd (GeoCoder_query example_geocoder ''Rome'' example_world))))))
     = [''Rome'', ''Milan'']"
proof -
  let ?q = "GeoCoder_query example_geocoder ''Rome'' example_world"
  let ?w2 = "run_queries [(example_geocoder, ''Milan''), (example_geocoder, ''rome'')] (snd ?q)"
  have v: "fst ?q = Some \<lparr>latitude = 41, longitude = 12\<rparr>"
    by (simp add: GeoCoder_query_def log_event_def Let_def lower_rome example_geocoder_def
          example_init)
  then have first: "?q = (Some \<lparr>latitude = 41, longitude = 12\<rparr>, snd ?q)"
    by (simp add: prod_eq_iff)
  have variant: "lower ''ROME'' = lower ''Rome''"
    by (simp add: lower_rome)
  have calls: "provider_calls (trace ?w2) = [''Rome'', ''Milan'']"
    by (simp add: GeoCoder_query_def log_event_def Let_def lower_rome lower_milan
          example_geocoder_def example_init)
  note t = query_cached_once[where other = example_geocoder, OF first variant refl]
  have "GeoCoder_query example_geocoder ''ROME'' ?w2
          = (Some \<lparr>latitude = 41, longitude = 12\<rparr>,
             ?w2\<lparr>trace := trace ?w2 @ [CacheRead (lower ''Rome''), CacheRead (lower ''Rome'')]\<rparr>)"
    using t by blast
  then show ?thesis
    using v calls by (simp add: provider_calls_append)
qed

text \<open>
  C9, as the code has it. A name that the provider does not find and that is not in
  the cache is unresolved, and \<open>location_coordinates\<close> returns \<^verbatim>\<open>None\<close> for both
  components of an unresolved name and the location's latitude and longitude for a
  resolved one; it has no raise. For two names that differ after \<open>lower\<close>,
  \<open>location_distance\<close> has no check and no raise of its own: its outcome is the
  outcome of the geodesic computation on the coordinate pairs of the two query
  results, the pair \<^verbatim>\<open>(None, None)\<close> for an unresolved name. It is an exception only
  when the geodesic computation raises, and a distance when that computation reads
  a missing coordinate as 0.
\<close>

theorem unresolved_location_distance:
  assumes differ: "lower location_name_1 \<noteq> lower location_name_2"
  shows "(LOCATION_CACHE w (lower n) = None \<and> GeoCoder_geocoder self n = None
            \<longrightarrow> unresolved self n w) \<and>
         (unresolved self n w
            \<longrightarrow> fst (location_coordinates self n w) = \<lparr>lat = None, lon = None\<rparr>) \<and>
         (fst (GeoCoder_query self n w) = Some l
            \<longrightarrow> fst (location_coordinates self n w)
                  = \<lparr>lat = Some (latitude l), lon = Some (longitude l)\<rparr>) \<and>
         fst (location_distance GRC self location_name_1 location_name_2 w)
           = GRC (coordinate_pair (fst (GeoCoder_query self location_name_1 w)))
                 (coordinate_pair (fst (GeoCoder_query self location_name_2 w))) \<and>
         (unresolved self location_name_1 w \<longrightarrow>
            fst (location_distance GRC self location_name_1 location_name_2 w)
              = GRC (None, None) (coordinate_pair (fst (GeoCoder_query self location_name_2 w)))) \<and>
         (unresolved self location_name_2 w \<longrightarrow>
            fst (location_distance GRC self location_name_1 location_name_2 w)
              = GRC (coordinate_pair (fst (GeoCoder_query self location_name_1 w))) (None, None))"
proof -
  have d: "fst (location_distance GRC self location_name_1 location_name_2 w)
           = GRC (coordinate_pair (fst (GeoCoder_query self location_name_1 w)))
                 (coordinate_pair (fst (GeoCoder_query self location_name_2 w)))"
    by (simp only: distance_result[OF differ] coords_of_query query_after_other[OF differ])
  have c: "fst (GeoCoder_query self n w) = Some l
            \<longrightarrow> fst (location_coordinates self n w)
                  = \<lparr>lat = Some (latitude l), lon = Some (longitude l)\<rparr>"
    by (auto simp: location_coordinates_def split: prod.splits option.splits)
  have u1: "unresolved self location_name_1 w \<longrightarrow>
            fst (location_distance GRC self location_name_1 location_name_2 w)
              = GRC (None, None) (coordinate_pair (fst (GeoCoder_query self location_name_2 w)))"
    by (simp add: d unresolved_def coordinate_pair_def)
  have u2: "unresolved self location_name_2 w \<longrightarrow>
            fst (location_distance GRC self location_name_1 location_name_2 w)
              = GRC (coordinate_pair (fst (GeoCoder_query self location_name_1 w))) (None, None)"
    by (simp add: d unresolved_def coordinate_pair_def)
  have a: "LOCATION_CACHE w (lower n) = None \<and> GeoCoder_geocoder self n = None
            \<longrightarrow> unresolved self n w"
    by (simp add: unresolved_def query_result)
  have b: "unresolved self n w
            \<longrightarrow> fst (location_coordinates self n w) = \<lparr>lat = None, lon = None\<rparr>"
    by (simp add: unresolved_coords)
  show ?thesis using a b c d u1 u2 by blast
qed

theorem unresolved_location_distance_witness:
  "fst (location_coordinates example_geocoder ''Atlantis'' example_world)
     = \<lparr>lat = None, lon = None\<rparr> \<and>
   fst (location_coordinates example_geocoder ''Rome'' example_world)
     = \<lparr>lat = Some 41, lon = Some 12\<rparr> \<and>
   fst (location_distance example_GRC example_geocoder ''Rome'' ''Atlantis'' example_world)
     = Inl ValueError \<and>
   fst (location_distance example_GRC_lenient example_geocoder ''Rome'' ''Atlantis''
          example_world) = Inr 53"
proof -
  have differ: "lower ''Rome'' \<noteq> lower ''Atlantis''"
    by (simp add: lower_rome lower_atlantis)
  note t = unresolved_location_distance[where self = example_geocoder and w = example_world
      and ?location_name_1.0 = "''Rome''" and ?location_name_2.0 = "''Atlantis''", OF differ]
  have c1: "fst (location_coordinates example_geocoder ''Atlantis'' example_world)
     = \<lparr>lat = None, lon = None\<rparr>"
    using t[where n = "''Atlantis''"] example_unresolved_atlantis by blast
  have c2: "fst (location_coordinates example_geocoder ''Rome'' example_world)
     = \<lparr>lat = Some 41, lon = Some 12\<rparr>"
    using t[where n = "''Rome''" and l = "\<lparr>latitude = 41, longitude = 12\<rparr>"]
      example_query_rome by simp
  have d1: "fst (location_distance example_GRC example_geocoder ''Rome'' ''Atlantis''
      example_world) = Inl ValueError"
    using t[where GRC = example_GRC] example_query_rome
    by (simp add: coordinate_pair_def example_GRC_def
          example_unresolved_atlantis[unfolded unresolved_def])
  have d2: "fst (location_distance example_GRC_lenient example_geocoder ''Rome'' ''Atlantis''
      example_world) = Inr 53"
    using t[where GRC = example_GRC_lenient] example_query_rome
    by (simp add: coordinate_pair_def example_GRC_lenient_def zero_if_None_def
          example_unresolved_atlantis[unfolded unresolved_def])
  show ?thesis using c1 c2 d1 d2 by blast
qed

text \<open>
  C9, as the claim has it, fails: with Atlantis unresolved and a geodesic computation
  that reads a missing coordinate as 0, the distance from Rome to Atlantis is the
  number 53 and nothing is raised.
\<close>

theorem unresolved_location_distance_counterexample:
  "unresolved example_geocoder ''Atlantis'' example_world \<and>
   lower ''Rome'' \<noteq> lower ''Atlantis'' \<and>
   fst (location_distance example_GRC_lenient example_geocoder ''Rome'' ''Atlantis''
          example_world) = Inr 53"
proof -
  have differ: "lower ''Rome'' \<noteq> lower ''Atlantis''"
    by (simp add: lower_rome lower_atlantis)
  have "fst (location_distance example_GRC_lenient example_geocoder ''Rome'' ''Atlantis''
          example_world) = Inr 53"
    by (simp add: distance_result[OF differ] coords_of_query query_after_other[OF differ]
          example_query_rome coordinate_pair_def example_GRC_lenient_def zero_if_None_def
          example_unresolved_atlantis[unfolded unresolved_def])
  then show ?thesis using differ example_unresolved_atlantis by blast
qed

end
